theory Spec2Isabelle
  imports Complex_Main
begin

section \<open>The operator library consumed by the Suzuki expansion\<close>

text \<open>
  Modelled from the spec: the operator library (\<open>OperatorBase\<close>, \<open>PrimitiveOp\<close>,
  \<open>SummedOp\<close>, \<open>PauliSumOp\<close>, \<open>ComposedOp\<close>) is imported by \<open>suzuki.py\<close> and is not
  part of it. A term is an elementary generator together with a scalar weight.
\<close>

datatype 'g operator_term = Term complex 'g

text \<open>Modelled from the spec: the single-qubit Pauli generators used in the concrete scenarios.\<close>

datatype pauli = Pauli_I | Pauli_X | Pauli_Y | Pauli_Z

text \<open>
  Modelled from the spec: a scaled term is a term multiplied by a scalar, not yet
  exponentiated. \<open>Mul opr s\<close> stands for the source expression \<open>op * s\<close>; it is kept
  as a free constructor, so nothing is assumed about the library's arithmetic on
  coefficients.
\<close>

datatype 'g scaled_term = Mul "'g operator_term" real

text \<open>
  Modelled from the spec: an exponentiated factor is the opaque result of
  "exponential of i times the operand". \<open>Exp_i x\<close> stands for \<open>x.exp_i()\<close>.
\<close>

datatype 'g exponentiated_factor = Exp_i "'g scaled_term"

text \<open>
  Modelled from the spec: the operand of \<open>convert\<close>. The two admissible shapes both
  expose an ordered list of terms and one overall coefficient; \<open>OtherOp\<close> stands for
  an operator of any other class.
\<close>

datatype 'g operator_base =
    SummedOp "'g operator_term list" real
  | PauliSumOp "'g operator_term list" real
  | OtherOp

text \<open>
  Modelled from the spec: a composed sequence is an ordered list of factors, applied
  left to right.
\<close>

datatype 'g composed_op = ComposedOp "'g exponentiated_factor list"

text \<open>
  Modelled from the spec: \<open>power\<close> repeats the whole composed sequence \<open>n\<close> times,
  concatenated, preserving the internal order each time. The spec defines it for a
  non-negative exponent only; the statements below use it with an exponent of at
  least 1.
\<close>

fun power_op :: "'g composed_op \<Rightarrow> int \<Rightarrow> 'g composed_op" where
  "power_op (ComposedOp fs) n = ComposedOp (concat (replicate (nat n) fs))"

section \<open>Errors\<close>

text \<open>
  \<open>TypeError\<close> is the exception raised by \<open>convert\<close> itself. \<open>ZeroDivisionError\<close> is
  what Python raises when \<open>evo_time / reps\<close> is evaluated with \<open>reps = 0\<close>. The source
  raises no other exception; a recursion that never reaches a base case is the
  value \<open>None\<close> of the option type below.
\<close>

datatype error = TypeError | ZeroDivisionError

definition truediv :: "real \<Rightarrow> int \<Rightarrow> error + real" where
  "truediv x n = (if n = 0 then Inl ZeroDivisionError else Inr (x / of_int n))"

section \<open>The class \<open>Suzuki\<close>\<close>

record suzuki =
  suzuki_reps :: int
  suzuki_order :: int

text \<open>The constructor, with its defaults \<open>reps = 1\<close> and \<open>order = 2\<close> written out by the caller.\<close>

definition init :: "int \<Rightarrow> int \<Rightarrow> suzuki" where
  "init reps_arg order_arg = \<lparr>suzuki_reps = reps_arg, suzuki_order = order_arg\<rparr>"

text \<open>
  The local \<open>p_k = (4 - 4 ** (1 / (2 * expansion_order - 1))) ** -1\<close>. Python's floats
  are read as real numbers. The base \<open>4 - 4 ** ...\<close> is zero only at order 1, which
  never reaches this expression.
\<close>

definition p_k :: "int \<Rightarrow> real" where
  "p_k expansion_order = inverse (4 - 4 powr (1 / of_int (2 * expansion_order - 1)))"

text \<open>
  The list comprehension \<open>[(op * (evo_time / reps)).exp_i() for op in op_list]\<close>:
  the quotient is evaluated once per element, so an empty list never divides.
\<close>

primrec comprehension ::
  "'g operator_term list \<Rightarrow> real \<Rightarrow> int \<Rightarrow> error + 'g exponentiated_factor list" where
  "comprehension [] evo_time reps = Inr []"
| "comprehension (opr # oprs) evo_time reps =
     (case truediv evo_time reps of
        Inl e \<Rightarrow> Inl e
      | Inr s \<Rightarrow>
          (case comprehension oprs evo_time reps of
             Inl e \<Rightarrow> Inl e
           | Inr fs \<Rightarrow> Inr (Exp_i (Mul opr s) # fs)))"

text \<open>
  \<open>_recursive_expansion\<close>. The result \<open>None\<close> means that the recursion does not
  return; \<open>Some (Inl e)\<close> is a raised exception and \<open>Some (Inr fs)\<close> the returned list.
  \<open>2 * xs\<close> on a Python list is \<open>xs @ xs\<close>. The interpreter's bound on the depth
  of the call stack is not modelled: the recursion is as deep as the order asks.
\<close>

partial_function (option) recursive_expansion ::
  "'g operator_term list \<Rightarrow> real \<Rightarrow> int \<Rightarrow> int
     \<Rightarrow> (error + 'g exponentiated_factor list) option" where
  "recursive_expansion op_list evo_time expansion_order reps =
     (if expansion_order = 1 then
        Some (comprehension op_list evo_time reps)
      else if expansion_order = 2 then
        Option.bind
          (recursive_expansion op_list (evo_time / 2) (expansion_order - 1) reps)
          (\<lambda>res. case res of
                    Inl e \<Rightarrow> Some (Inl e)
                  | Inr half \<Rightarrow> Some (Inr (rev half @ half)))
      else
        Option.bind
          (recursive_expansion op_list (evo_time * p_k expansion_order)
             (expansion_order - 2) reps)
          (\<lambda>res. case res of
                    Inl e \<Rightarrow> Some (Inl e)
                  | Inr twice \<Rightarrow>
                      Option.bind
                        (recursive_expansion op_list
                           (evo_time * (1 - 4 * p_k expansion_order))
                           (expansion_order - 2) reps)
                        (\<lambda>res'. case res' of
                                   Inl e \<Rightarrow> Some (Inl e)
                                 | Inr middle \<Rightarrow>
                                     Some (Inr ((twice @ twice) @ middle @ (twice @ twice))))))"

text \<open>
  \<open>convert\<close>. The library's \<open>reduce\<close> is opaque and is taken as a parameter. Iterating
  over a \<open>PauliSumOp\<close> yields its terms.
\<close>

definition convert ::
  "('g composed_op \<Rightarrow> 'g composed_op) \<Rightarrow> suzuki \<Rightarrow> 'g operator_base
     \<Rightarrow> (error + 'g composed_op) option" where
  "convert reduce self operator =
     (case operator of
        OtherOp \<Rightarrow> Some (Inl TypeError)
      | PauliSumOp terms coeff \<Rightarrow>
          Option.bind
            (recursive_expansion terms coeff (suzuki_order self) (suzuki_reps self))
            (\<lambda>res. case res of
                      Inl e \<Rightarrow> Some (Inl e)
                    | Inr comp_list \<Rightarrow>
                        Some (Inr (reduce (power_op (ComposedOp comp_list) (suzuki_reps self)))))
      | SummedOp oplist coeff \<Rightarrow>
          Option.bind
            (recursive_expansion oplist coeff (suzuki_order self) (suzuki_reps self))
            (\<lambda>res. case res of
                      Inl e \<Rightarrow> Some (Inl e)
                    | Inr comp_list \<Rightarrow>
                        Some (Inr (reduce (power_op (ComposedOp comp_list) (suzuki_reps self))))))"

section \<open>Unfolding the recursion\<close>

lemma comprehension_map:
  "reps \<noteq> 0 \<Longrightarrow>
   comprehension op_list evo_time reps =
     Inr (map (\<lambda>opr. Exp_i (Mul opr (evo_time / of_int reps))) op_list)"
  by (induction op_list) (simp_all add: truediv_def)

lemma comprehension_zero:
  "op_list \<noteq> [] \<Longrightarrow> comprehension op_list evo_time 0 = Inl ZeroDivisionError"
  by (cases op_list) (simp_all add: truediv_def)

lemma recursive_expansion_1:
  "recursive_expansion op_list evo_time 1 reps = Some (comprehension op_list evo_time reps)"
  by (subst recursive_expansion.simps) simp

lemma recursive_expansion_2:
  "recursive_expansion op_list evo_time 2 reps =
     Some (case comprehension op_list (evo_time / 2) reps of
             Inl e \<Rightarrow> Inl e
           | Inr half \<Rightarrow> Inr (rev half @ half))"
  by (subst recursive_expansion.simps) (simp add: recursive_expansion_1 split: sum.split)

lemma recursive_expansion_step:
  assumes "expansion_order \<noteq> 1" and "expansion_order \<noteq> 2"
    and "recursive_expansion op_list (evo_time * p_k expansion_order)
           (expansion_order - 2) reps = Some (Inr twice)"
    and "recursive_expansion op_list (evo_time * (1 - 4 * p_k expansion_order))
           (expansion_order - 2) reps = Some (Inr middle)"
  shows "recursive_expansion op_list evo_time expansion_order reps =
           Some (Inr (twice @ twice @ middle @ twice @ twice))"
  by (subst recursive_expansion.simps) (simp add: assms)

section \<open>Termination, and the orders that never return\<close>

lemma recursive_expansion_returns:
  "1 \<le> expansion_order \<Longrightarrow> reps \<noteq> 0 \<Longrightarrow>
   \<exists>fs. recursive_expansion op_list evo_time expansion_order reps = Some (Inr fs)"
proof (induction "nat expansion_order" arbitrary: expansion_order evo_time rule: less_induct)
  case less
  show ?case
  proof (cases "expansion_order = 1 \<or> expansion_order = 2")
    case True
    with less.prems show ?thesis
      by (auto simp: recursive_expansion_1 recursive_expansion_2 comprehension_map)
  next
    case False
    then have k: "expansion_order \<noteq> 1" "expansion_order \<noteq> 2" "1 \<le> expansion_order - 2"
      using less.prems by auto
    have m: "nat (expansion_order - 2) < nat expansion_order"
      using less.prems by auto
    obtain twice where s: "recursive_expansion op_list (evo_time * p_k expansion_order)
           (expansion_order - 2) reps = Some (Inr twice)"
      using less.hyps [OF m k(3) less.prems(2)] by blast
    obtain middle where c: "recursive_expansion op_list (evo_time * (1 - 4 * p_k expansion_order))
           (expansion_order - 2) reps = Some (Inr middle)"
      using less.hyps [OF m k(3) less.prems(2)] by blast
    show ?thesis
      using recursive_expansion_step [OF k(1) k(2) s c] by blast
  qed
qed

lemma recursive_expansion_needs_base:
  assumes "recursive_expansion op_list evo_time expansion_order reps = Some y"
  shows "1 \<le> expansion_order"
proof (rule recursive_expansion.raw_induct
    [where P = "\<lambda>_ _ k _ _. 1 \<le> k", OF _ assms], goal_cases)
  case (1 f ops t k r z)
  show ?case
  proof (cases "k = 1 \<or> k = 2")
    case True
    then show ?thesis by auto
  next
    case False
    with 1(2) obtain w where "f ops (t * p_k k) (k - 2) r = Some w"
      by (auto simp: bind_eq_Some_conv)
    from 1(1) [OF this] show ?thesis by simp
  qed
qed

lemma recursive_expansion_diverges:
  "expansion_order \<le> 0 \<Longrightarrow> recursive_expansion op_list evo_time expansion_order reps = None"
  using recursive_expansion_needs_base [of op_list evo_time expansion_order reps]
  by (cases "recursive_expansion op_list evo_time expansion_order reps") auto

lemma recursive_expansion_zero_reps:
  "1 \<le> expansion_order \<Longrightarrow> op_list \<noteq> [] \<Longrightarrow>
   recursive_expansion op_list evo_time expansion_order 0 = Some (Inl ZeroDivisionError)"
proof (induction "nat expansion_order" arbitrary: expansion_order evo_time rule: less_induct)
  case less
  show ?case
  proof (cases "expansion_order = 1 \<or> expansion_order = 2")
    case True
    with less.prems show ?thesis
      by (auto simp: recursive_expansion_1 recursive_expansion_2 comprehension_zero)
  next
    case False
    then have k: "expansion_order \<noteq> 1" "expansion_order \<noteq> 2" "1 \<le> expansion_order - 2"
      using less.prems by auto
    have m: "nat (expansion_order - 2) < nat expansion_order"
      using less.prems by auto
    have "recursive_expansion op_list (evo_time * p_k expansion_order)
           (expansion_order - 2) 0 = Some (Inl ZeroDivisionError)"
      using less.hyps [OF m k(3) less.prems(2)] .
    then show ?thesis
      using k by (subst recursive_expansion.simps) simp
  qed
qed

lemma recursive_expansion_even:
  "2 \<le> expansion_order \<Longrightarrow> even expansion_order \<Longrightarrow> reps \<noteq> 0 \<Longrightarrow>
   \<exists>fs. recursive_expansion op_list evo_time expansion_order reps = Some (Inr fs)
        \<and> rev fs = fs
        \<and> length fs = 2 * length op_list * 5 ^ nat (expansion_order div 2 - 1)"
proof (induction "nat expansion_order" arbitrary: expansion_order evo_time rule: less_induct)
  case less
  show ?case
  proof (cases "expansion_order = 2")
    case True
    with less.prems show ?thesis
      by (simp add: recursive_expansion_2 comprehension_map)
  next
    case False
    with less.prems have ge: "4 \<le> expansion_order"
      by presburger
    then have k: "expansion_order \<noteq> 1" "expansion_order \<noteq> 2"
      "2 \<le> expansion_order - 2" "even (expansion_order - 2)"
      using less.prems by auto
    have m: "nat (expansion_order - 2) < nat expansion_order"
      using ge by auto
    have e: "nat (expansion_order div 2 - 1) = Suc (nat ((expansion_order - 2) div 2 - 1))"
      using ge by auto
    obtain twice where s: "recursive_expansion op_list (evo_time * p_k expansion_order)
           (expansion_order - 2) reps = Some (Inr twice)" "rev twice = twice"
        "length twice = 2 * length op_list * 5 ^ nat ((expansion_order - 2) div 2 - 1)"
      using less.hyps [OF m k(3) k(4) less.prems(3)] by blast
    obtain middle where c: "recursive_expansion op_list (evo_time * (1 - 4 * p_k expansion_order))
           (expansion_order - 2) reps = Some (Inr middle)" "rev middle = middle"
        "length middle = 2 * length op_list * 5 ^ nat ((expansion_order - 2) div 2 - 1)"
      using less.hyps [OF m k(3) k(4) less.prems(3)] by blast
    have "rev (twice @ twice @ middle @ twice @ twice) = twice @ twice @ middle @ twice @ twice"
      using s(2) c(2) by simp
    moreover have "length (twice @ twice @ middle @ twice @ twice)
        = 2 * length op_list * 5 ^ nat (expansion_order div 2 - 1)"
      using s(3) c(3) by (simp add: e)
    ultimately show ?thesis
      using recursive_expansion_step [OF k(1) k(2) s(1) c(1)] by blast
  qed
qed

section \<open>The expansion at each order\<close>

text \<open>
  Claim C1. For a non-empty term list, \<open>reps \<ge> 1\<close> and an even order \<open>k > 2\<close>, the
  expansion is the five-block list \<open>side @ side @ middle @ side @ side\<close>, where \<open>side\<close>
  is the expansion of order \<open>k - 2\<close> at time \<open>t * p_k\<close>, \<open>middle\<close> the expansion of order
  \<open>k - 2\<close> at time \<open>t * (1 - 4 * p_k)\<close>, and \<open>p_k = 1 / (4 - 4 powr (1 / (2 * k - 1)))\<close>.
  The doubling of \<open>side\<close> is list concatenation.
\<close>

theorem recursive_expansion_five_blocks:
  assumes "op_list \<noteq> []" and "1 \<le> reps" and "even expansion_order" and "2 < expansion_order"
  shows "p_k expansion_order = 1 / (4 - 4 powr (1 / of_int (2 * expansion_order - 1)))
       \<and> (\<exists>side middle.
            recursive_expansion op_list (evo_time * p_k expansion_order)
              (expansion_order - 2) reps = Some (Inr side)
          \<and> recursive_expansion op_list (evo_time * (1 - 4 * p_k expansion_order))
              (expansion_order - 2) reps = Some (Inr middle)
          \<and> recursive_expansion op_list evo_time expansion_order reps
              = Some (Inr (side @ side @ middle @ side @ side)))"
proof -
  have k: "expansion_order \<noteq> 1" "expansion_order \<noteq> 2" "1 \<le> expansion_order - 2"
    using assms(4) by auto
  have r: "reps \<noteq> 0"
    using assms(2) by simp
  obtain side where s: "recursive_expansion op_list (evo_time * p_k expansion_order)
      (expansion_order - 2) reps = Some (Inr side)"
    using recursive_expansion_returns [OF k(3) r] by blast
  obtain middle where m: "recursive_expansion op_list
      (evo_time * (1 - 4 * p_k expansion_order)) (expansion_order - 2) reps = Some (Inr middle)"
    using recursive_expansion_returns [OF k(3) r] by blast
  have "p_k expansion_order = 1 / (4 - 4 powr (1 / of_int (2 * expansion_order - 1)))"
    by (simp add: p_k_def inverse_eq_divide)
  then show ?thesis
    using s m recursive_expansion_step [OF k(1) k(2) s m] by blast
qed

theorem recursive_expansion_five_blocks_witness:
  "p_k 4 = 1 / (4 - 4 powr (1 / of_int (2 * 4 - 1)))
 \<and> (\<exists>side middle.
      recursive_expansion [Term 1 Pauli_X, Term 1 Pauli_Z] (2 * p_k 4) (4 - 2) 1
        = Some (Inr side)
    \<and> recursive_expansion [Term 1 Pauli_X, Term 1 Pauli_Z] (2 * (1 - 4 * p_k 4)) (4 - 2) 1
        = Some (Inr middle)
    \<and> recursive_expansion [Term 1 Pauli_X, Term 1 Pauli_Z] 2 4 1
        = Some (Inr (side @ side @ middle @ side @ side)))"
  by (rule recursive_expansion_five_blocks) simp_all

text \<open>
  Claim C2. For a non-empty term list and \<open>reps \<ge> 1\<close>, the expansion of order 2 is
  \<open>rev half @ half\<close>, where \<open>half\<close> is the expansion of order 1 at half the time. For the
  terms \<open>[(1, X), (1, Z)]\<close>, coefficient 2 and \<open>reps = 1\<close> the slice is
  \<open>[exp(i Z 1), exp(i X 1), exp(i X 1), exp(i Z 1)]\<close>.
\<close>

theorem recursive_expansion_second_order:
  assumes "op_list \<noteq> []" and "1 \<le> reps"
  shows "(\<exists>half. recursive_expansion op_list (evo_time / 2) 1 reps = Some (Inr half)
            \<and> recursive_expansion op_list evo_time 2 reps = Some (Inr (rev half @ half)))
       \<and> recursive_expansion [Term 1 Pauli_X, Term 1 Pauli_Z] 2 2 1
           = Some (Inr [Exp_i (Mul (Term 1 Pauli_Z) 1), Exp_i (Mul (Term 1 Pauli_X) 1),
                        Exp_i (Mul (Term 1 Pauli_X) 1), Exp_i (Mul (Term 1 Pauli_Z) 1)])"
proof -
  have r: "reps \<noteq> 0"
    using assms(2) by simp
  have "recursive_expansion op_list evo_time 2 reps
      = Some (Inr (rev (map (\<lambda>opr. Exp_i (Mul opr (evo_time / 2 / of_int reps))) op_list)
                   @ map (\<lambda>opr. Exp_i (Mul opr (evo_time / 2 / of_int reps))) op_list))"
    by (simp add: recursive_expansion_2 comprehension_map [OF r])
  moreover have "recursive_expansion op_list (evo_time / 2) 1 reps
      = Some (Inr (map (\<lambda>opr. Exp_i (Mul opr (evo_time / 2 / of_int reps))) op_list))"
    by (simp add: recursive_expansion_1 comprehension_map [OF r])
  moreover have "recursive_expansion [Term 1 Pauli_X, Term 1 Pauli_Z] 2 2 1
           = Some (Inr [Exp_i (Mul (Term 1 Pauli_Z) 1), Exp_i (Mul (Term 1 Pauli_X) 1),
                        Exp_i (Mul (Term 1 Pauli_X) 1), Exp_i (Mul (Term 1 Pauli_Z) 1)])"
    by (simp add: recursive_expansion_2 truediv_def)
  ultimately show ?thesis
    by simp
qed

theorem recursive_expansion_second_order_witness:
  "\<exists>half. recursive_expansion [Term 3 Pauli_Y] (5 / 2) 1 2 = Some (Inr half)
      \<and> recursive_expansion [Term 3 Pauli_Y] 5 2 2 = Some (Inr (rev half @ half))"
  using recursive_expansion_second_order [of "[Term 3 Pauli_Y]" 2 5]
  by simp

text \<open>
  Claim C3. For a non-empty term list and \<open>reps \<ge> 1\<close>, the expansion of order 1 has one
  factor \<open>exp(i (w G) t / reps)\<close> per term, in the order of the terms. For the terms
  \<open>[(1, X), (1, Z)]\<close>, coefficient 2 and \<open>reps = 1\<close> it is \<open>[exp(i X 2), exp(i Z 2)]\<close>.
\<close>

theorem recursive_expansion_first_order:
  assumes "op_list \<noteq> []" and "1 \<le> reps"
  shows "recursive_expansion op_list evo_time 1 reps
           = Some (Inr (map (\<lambda>opr. Exp_i (Mul opr (evo_time / of_int reps))) op_list))
       \<and> recursive_expansion [Term 1 Pauli_X, Term 1 Pauli_Z] 2 1 1
           = Some (Inr [Exp_i (Mul (Term 1 Pauli_X) 2), Exp_i (Mul (Term 1 Pauli_Z) 2)])"
proof -
  have r: "reps \<noteq> 0"
    using assms(2) by simp
  show ?thesis
    by (simp add: recursive_expansion_1 comprehension_map [OF r] truediv_def)
qed

theorem recursive_expansion_first_order_witness:
  "recursive_expansion [Term 3 Pauli_Y, Term 2 Pauli_X] 5 1 2
     = Some (Inr [Exp_i (Mul (Term 3 Pauli_Y) (5 / 2)), Exp_i (Mul (Term 2 Pauli_X) (5 / 2))])"
  using recursive_expansion_first_order [of "[Term 3 Pauli_Y, Term 2 Pauli_X]" 2 5]
  by simp

section \<open>The conversion\<close>

lemma convert_admissible:
  assumes "operator = SummedOp terms coeff \<or> operator = PauliSumOp terms coeff"
  shows "convert reduce self operator =
           Option.bind
             (recursive_expansion terms coeff (suzuki_order self) (suzuki_reps self))
             (\<lambda>res. case res of
                       Inl e \<Rightarrow> Some (Inl e)
                     | Inr comp_list \<Rightarrow>
                         Some (Inr (reduce (power_op (ComposedOp comp_list) (suzuki_reps self)))))"
  using assms by (auto simp: convert_def simp del: power_op.simps)

text \<open>
  Claim C4. For an admissible operand (with the state invariants \<open>order \<ge> 1\<close> and
  \<open>reps \<ge> 1\<close>), \<open>convert\<close> takes the terms and the coefficient of the operand, builds
  one slice with \<open>recursive_expansion\<close>, wraps it in a composed sequence, raises it to
  the power \<open>reps\<close> (the slice repeated \<open>reps\<close> times, in order), applies \<open>reduce\<close> and
  returns the reduced result.
\<close>

theorem convert_pipeline:
  assumes "operator = SummedOp terms coeff \<or> operator = PauliSumOp terms coeff"
    and "1 \<le> suzuki_order self" and "1 \<le> suzuki_reps self"
  shows "\<exists>slice.
           recursive_expansion terms coeff (suzuki_order self) (suzuki_reps self)
             = Some (Inr slice)
         \<and> power_op (ComposedOp slice) (suzuki_reps self)
             = ComposedOp (concat (replicate (nat (suzuki_reps self)) slice))
         \<and> convert reduce self operator
             = Some (Inr (reduce (power_op (ComposedOp slice) (suzuki_reps self))))"
proof -
  have r: "suzuki_reps self \<noteq> 0"
    using assms(3) by simp
  obtain slice where s:
    "recursive_expansion terms coeff (suzuki_order self) (suzuki_reps self) = Some (Inr slice)"
    using recursive_expansion_returns [OF assms(2) r] by blast
  then have "convert reduce self operator
      = Some (Inr (reduce (power_op (ComposedOp slice) (suzuki_reps self))))"
    by (simp add: convert_admissible [OF assms(1)])
  with s show ?thesis
    by simp
qed

theorem convert_pipeline_witness:
  "convert id (init 2 1) (SummedOp [Term 1 Pauli_X, Term 1 Pauli_Z] 2)
     = Some (Inr (ComposedOp [Exp_i (Mul (Term 1 Pauli_X) 1), Exp_i (Mul (Term 1 Pauli_Z) 1),
                              Exp_i (Mul (Term 1 Pauli_X) 1), Exp_i (Mul (Term 1 Pauli_Z) 1)]))"
proof -
  have a: "SummedOp [Term 1 Pauli_X, Term 1 Pauli_Z] 2 = SummedOp [Term 1 Pauli_X, Term 1 Pauli_Z] 2
      \<or> SummedOp [Term 1 Pauli_X, Term 1 Pauli_Z] 2 = PauliSumOp [Term 1 Pauli_X, Term 1 Pauli_Z] 2"
    by simp
  have k: "1 \<le> suzuki_order (init 2 1)" and r: "1 \<le> suzuki_reps (init 2 1)"
    by (simp_all add: init_def)
  obtain slice where
    s: "recursive_expansion [Term 1 Pauli_X, Term 1 Pauli_Z] 2 (suzuki_order (init 2 1))
          (suzuki_reps (init 2 1)) = Some (Inr slice)"
    and p: "power_op (ComposedOp slice) (suzuki_reps (init 2 1))
          = ComposedOp (concat (replicate (nat (suzuki_reps (init 2 1))) slice))"
    and c: "convert id (init 2 1) (SummedOp [Term 1 Pauli_X, Term 1 Pauli_Z] 2)
          = Some (Inr (id (power_op (ComposedOp slice) (suzuki_reps (init 2 1)))))"
    using convert_pipeline [OF a k r, of id] by blast
  have "recursive_expansion [Term 1 Pauli_X, Term 1 Pauli_Z] 2 (suzuki_order (init 2 1))
          (suzuki_reps (init 2 1))
      = Some (Inr [Exp_i (Mul (Term 1 Pauli_X) 1), Exp_i (Mul (Term 1 Pauli_Z) 1)])"
    by (simp add: init_def recursive_expansion_1 truediv_def)
  with s have "slice = [Exp_i (Mul (Term 1 Pauli_X) 1), Exp_i (Mul (Term 1 Pauli_Z) 1)]"
    by simp
  with c p show ?thesis
    by (simp add: init_def eval_nat_numeral)
qed

text \<open>
  Claim C6. \<open>convert\<close> accepts the two weighted-sum shapes and no other: an operand of
  any other shape fails with \<open>TypeError\<close> whatever the order and the repetition count
  are, so before any recursion; the two admissible shapes never fail with it.
\<close>

theorem convert_type_error:
  "convert reduce self OtherOp = Some (Inl TypeError)
 \<and> (1 \<le> suzuki_reps self \<longrightarrow>
        convert reduce self (SummedOp terms coeff) \<noteq> Some (Inl TypeError)
      \<and> convert reduce self (PauliSumOp terms coeff) \<noteq> Some (Inl TypeError))"
proof -
  have "convert reduce self operator \<noteq> Some (Inl TypeError)"
    if a: "operator = SummedOp terms coeff \<or> operator = PauliSumOp terms coeff"
      and r: "1 \<le> suzuki_reps self" for operator
  proof (cases "1 \<le> suzuki_order self")
    case True
    from r have "suzuki_reps self \<noteq> 0"
      by simp
    from recursive_expansion_returns [OF True this] obtain slice where
      "recursive_expansion terms coeff (suzuki_order self) (suzuki_reps self) = Some (Inr slice)"
      by blast
    then show ?thesis
      by (simp add: convert_admissible [OF a])
  next
    case False
    then have "recursive_expansion terms coeff (suzuki_order self) (suzuki_reps self) = None"
      by (simp add: recursive_expansion_diverges)
    then show ?thesis
      by (simp add: convert_admissible [OF a])
  qed
  moreover have "convert reduce self OtherOp = Some (Inl TypeError)"
    by (simp add: convert_def)
  ultimately show ?thesis
    by blast
qed

theorem convert_type_error_witness:
  "convert id (init 1 0) (OtherOp :: pauli operator_base) = Some (Inl TypeError)
 \<and> convert id (init 1 2) (SummedOp [Term 1 Pauli_X] 2) \<noteq> Some (Inl TypeError)
 \<and> convert id (init 1 2) (PauliSumOp [Term 1 Pauli_X] 2) \<noteq> Some (Inl TypeError)"
  using convert_type_error [of id "init 1 0" "[Term 1 Pauli_X]" 2]
    convert_type_error [of id "init 1 2" "[Term 1 Pauli_X]" 2]
  by (simp add: init_def)

text \<open>
  Claim C7. For a non-empty list of \<open>n\<close> terms (and \<open>reps \<ge> 1\<close>) the slice of order 1
  has length \<open>n\<close>, and the slice of order 2 has twice the length of the slice of order 1
  computed at half the time, which is \<open>2 * n\<close>.
\<close>

theorem recursive_expansion_length_scaling:
  assumes "op_list \<noteq> []" and "1 \<le> reps"
  shows "\<exists>first half second.
           recursive_expansion op_list evo_time 1 reps = Some (Inr first)
         \<and> length first = length op_list
         \<and> recursive_expansion op_list (evo_time / 2) 1 reps = Some (Inr half)
         \<and> recursive_expansion op_list evo_time 2 reps = Some (Inr second)
         \<and> length second = 2 * length half
         \<and> length second = 2 * length op_list"
proof -
  have r: "reps \<noteq> 0"
    using assms(2) by simp
  show ?thesis
    by (simp add: recursive_expansion_1 recursive_expansion_2 comprehension_map [OF r])
qed

theorem recursive_expansion_length_scaling_witness:
  "\<exists>first half second.
     recursive_expansion [Term 1 Pauli_X, Term 1 Pauli_Z, Term 2 Pauli_Y] 3 1 2 = Some (Inr first)
   \<and> length first = length [Term 1 Pauli_X, Term 1 Pauli_Z, Term 2 Pauli_Y]
   \<and> recursive_expansion [Term 1 Pauli_X, Term 1 Pauli_Z, Term 2 Pauli_Y] (3 / 2) 1 2
       = Some (Inr half)
   \<and> recursive_expansion [Term 1 Pauli_X, Term 1 Pauli_Z, Term 2 Pauli_Y] 3 2 2
       = Some (Inr second)
   \<and> length second = 2 * length half
   \<and> length second = 2 * length [Term 1 Pauli_X, Term 1 Pauli_Z, Term 2 Pauli_Y]"
  by (rule recursive_expansion_length_scaling) simp_all

section \<open>Symmetry, size and termination\<close>

text \<open>
  Claim C9. For a non-empty term list, \<open>reps \<ge> 1\<close> and every even order \<open>k \<ge> 2\<close>, the
  returned list is a palindrome: it equals its own reversal.
\<close>

theorem recursive_expansion_palindrome:
  assumes "op_list \<noteq> []" and "1 \<le> reps" and "even expansion_order" and "2 \<le> expansion_order"
  shows "\<exists>fs. recursive_expansion op_list evo_time expansion_order reps = Some (Inr fs)
            \<and> rev fs = fs"
proof -
  have "reps \<noteq> 0"
    using assms(2) by simp
  from recursive_expansion_even [OF assms(4) assms(3) this] show ?thesis
    by blast
qed

theorem recursive_expansion_palindrome_witness:
  "\<exists>fs. recursive_expansion [Term 1 Pauli_X, Term 1 Pauli_Z] 2 4 1 = Some (Inr fs)
      \<and> rev fs = fs"
  by (rule recursive_expansion_palindrome) simp_all

text \<open>
  Claim C10. \<open>recursive_expansion\<close> returns a list for every order \<open>k \<ge> 1\<close>, odd orders
  above 1 included, every term list, every time and every \<open>reps \<ge> 1\<close>; for an even
  order \<open>k \<ge> 2\<close> and \<open>n\<close> terms the list has length \<open>2 * n * 5 ^ (k div 2 - 1)\<close>.
\<close>

theorem recursive_expansion_terminates:
  assumes "1 \<le> expansion_order" and "1 \<le> reps"
  shows "\<exists>fs. recursive_expansion op_list evo_time expansion_order reps = Some (Inr fs)
            \<and> (even expansion_order \<longrightarrow>
                 length fs = 2 * length op_list * 5 ^ nat (expansion_order div 2 - 1))"
proof -
  have r: "reps \<noteq> 0"
    using assms(2) by simp
  show ?thesis
  proof (cases "even expansion_order")
    case True
    with assms(1) have "2 \<le> expansion_order"
      by presburger
    from recursive_expansion_even [OF this True r] show ?thesis
      by blast
  next
    case False
    with recursive_expansion_returns [OF assms(1) r] show ?thesis
      by blast
  qed
qed

theorem recursive_expansion_terminates_witness:
  "(\<exists>fs. recursive_expansion [Term 1 Pauli_X, Term 1 Pauli_Z] 2 3 1 = Some (Inr fs))
 \<and> (\<exists>fs. recursive_expansion [Term 1 Pauli_X, Term 1 Pauli_Z] 2 4 1 = Some (Inr fs)
         \<and> length fs = 20)"
  using recursive_expansion_terminates [of 3 1 "[Term 1 Pauli_X, Term 1 Pauli_Z]" 2]
    recursive_expansion_terminates [of 4 1 "[Term 1 Pauli_X, Term 1 Pauli_Z]" 2]
  by simp

section \<open>Orders and repetition counts that are not validated\<close>

text \<open>
  Claim C5, as stated: \<open>convert\<close> fails with a value error whenever the order is neither
  1 nor an even number of at least 2. At order 3 and \<open>reps = 1\<close> it returns the
  five-block expansion built from the slices of order 1 instead.
\<close>

theorem convert_order_3_counterexample:
  "convert id (init 1 3) (SummedOp [Term 1 Pauli_X] 1)
     = Some (Inr (ComposedOp
         [Exp_i (Mul (Term 1 Pauli_X) (p_k 3)), Exp_i (Mul (Term 1 Pauli_X) (p_k 3)),
          Exp_i (Mul (Term 1 Pauli_X) (1 - 4 * p_k 3)),
          Exp_i (Mul (Term 1 Pauli_X) (p_k 3)), Exp_i (Mul (Term 1 Pauli_X) (p_k 3))]))"
proof -
  have "recursive_expansion [Term 1 Pauli_X] 1 3 1
      = Some (Inr ([Exp_i (Mul (Term 1 Pauli_X) (p_k 3))] @ [Exp_i (Mul (Term 1 Pauli_X) (p_k 3))]
          @ [Exp_i (Mul (Term 1 Pauli_X) (1 - 4 * p_k 3))]
          @ [Exp_i (Mul (Term 1 Pauli_X) (p_k 3))] @ [Exp_i (Mul (Term 1 Pauli_X) (p_k 3))]))"
    by (rule recursive_expansion_step) (simp_all add: recursive_expansion_1 truediv_def)
  then show ?thesis
    by (simp add: convert_def init_def)
qed

text \<open>
  Claim C5, amended. \<open>convert\<close> does not validate the order or the repetition count.
  For an admissible operand and \<open>reps \<ge> 1\<close>, every order \<open>k \<ge> 1\<close>, odd or even, gives
  the reduced expansion; for an order \<open>k \<le> 0\<close> the recursion never reaches a base case
  and nothing is returned. With \<open>reps = 0\<close>, an order \<open>k \<ge> 1\<close> and a non-empty term list
  the division by \<open>reps\<close> fails and no expansion is produced.
\<close>

theorem convert_no_validation:
  assumes "operator = SummedOp terms coeff \<or> operator = PauliSumOp terms coeff"
  shows "(1 \<le> suzuki_order self \<and> 1 \<le> suzuki_reps self \<longrightarrow>
            (\<exists>slice. recursive_expansion terms coeff (suzuki_order self) (suzuki_reps self)
                        = Some (Inr slice)
                    \<and> convert reduce self operator
                        = Some (Inr (reduce (power_op (ComposedOp slice) (suzuki_reps self))))))
       \<and> (suzuki_order self \<le> 0 \<longrightarrow> convert reduce self operator = None)
       \<and> (1 \<le> suzuki_order self \<and> suzuki_reps self = 0 \<and> terms \<noteq> [] \<longrightarrow>
            convert reduce self operator = Some (Inl ZeroDivisionError))"
proof (intro conjI impI)
  assume "1 \<le> suzuki_order self \<and> 1 \<le> suzuki_reps self"
  then have k: "1 \<le> suzuki_order self" and r: "suzuki_reps self \<noteq> 0"
    by simp_all
  obtain slice where s:
    "recursive_expansion terms coeff (suzuki_order self) (suzuki_reps self) = Some (Inr slice)"
    using recursive_expansion_returns [OF k r] by blast
  then have "convert reduce self operator
      = Some (Inr (reduce (power_op (ComposedOp slice) (suzuki_reps self))))"
    by (simp add: convert_admissible [OF assms])
  with s show "\<exists>slice. recursive_expansion terms coeff (suzuki_order self) (suzuki_reps self)
                        = Some (Inr slice)
                    \<and> convert reduce self operator
                        = Some (Inr (reduce (power_op (ComposedOp slice) (suzuki_reps self))))"
    by simp
next
  assume "suzuki_order self \<le> 0"
  then show "convert reduce self operator = None"
    by (simp add: convert_admissible [OF assms] recursive_expansion_diverges)
next
  assume "1 \<le> suzuki_order self \<and> suzuki_reps self = 0 \<and> terms \<noteq> []"
  then show "convert reduce self operator = Some (Inl ZeroDivisionError)"
    by (simp add: convert_admissible [OF assms] recursive_expansion_zero_reps)
qed

theorem convert_no_validation_witness:
  "(\<exists>slice. recursive_expansion [Term 1 Pauli_X] 1 3 1 = Some (Inr slice)
      \<and> convert id (init 1 3) (SummedOp [Term 1 Pauli_X] 1)
          = Some (Inr (id (power_op (ComposedOp slice) 1))))
 \<and> convert id (init 1 0) (SummedOp [Term 1 Pauli_X] 1) = None
 \<and> convert id (init 0 3) (SummedOp [Term 1 Pauli_X] 1) = Some (Inl ZeroDivisionError)"
  using convert_no_validation [of "SummedOp [Term 1 Pauli_X] 1" "[Term 1 Pauli_X]" 1 "init 1 3" id]
    convert_no_validation [of "SummedOp [Term 1 Pauli_X] 1" "[Term 1 Pauli_X]" 1 "init 1 0" id]
    convert_no_validation [of "SummedOp [Term 1 Pauli_X] 1" "[Term 1 Pauli_X]" 1 "init 0 3" id]
  by (simp add: init_def)

end
